theory Spec2Isabelle
  imports Main "HOL-Library.Word"
begin

unbundle bit_operations_syntax

section \<open>Values, errors and observable effects\<close>

text \<open>
  The class \<open>P2PNode\<close> drives a libp2p node and writes to a console logger. A JavaScript
  string is a \<^typ>\<open>string\<close> (code units below 256), a \<open>Uint8Array\<close> a list of bytes.
  Every \<open>throw\<close> and every rejected promise is a value \<open>Inl e\<close> of a sum type. Every call
  made to the logger, to the application's message handler and to the timer functions, and
  every call that acts on the libp2p node (create, start, stop, subscribe, provide, dial,
  publish) is recorded, in program order, in a list of effects. Log texts are kept without
  their pictographs and time stamps; a number spliced into a text is an argument, and an
  object passed to the logger is left out.
\<close>

type_synonym bytes = "8 word list"

datatype error = Error string

datatype jsval = VBytes bytes | VStr string

datatype level = Info | Warn

datatype logger = BaseLogger | ForComponent string

datatype logarg = AStr string | AStrs "string list" | ANum nat | AErr error

datatype timeout = Timeout nat

datatype effect =
    Log logger level string "logarg list"
  | HandlerCall "jsval list"
  | Subscribe string
  | Provide bytes
  | Dial string
  | Publish string bytes
  | CreateLibp2p
  | NodeStart
  | NodeStop
  | SetInterval nat
  | ClearInterval timeout

section \<open>The gossipsub message event and its listener\<close>

text \<open>
  \<open>evt.detail.msg\<close> of a \<open>gossipsub:message\<close> event: the topic, the payload and the
  identifier of the peer the message comes from.
\<close>

record message =
  msg_topic :: string
  msg_data :: bytes
  msg_from :: string

text \<open>
  The application's handler has the type \<open>(message: Uint8Array) => void\<close>. What it does
  is a function of the arguments it is called with: \<open>None\<close> when it returns, \<open>Some e\<close>
  when it throws \<open>e\<close>.
\<close>

type_synonym handler = "jsval list \<Rightarrow> error option"

text \<open>
  The listener installed by \<open>init\<close>:
  \<^verbatim>\<open>
  (evt) => { const msg = evt.detail.msg;
             gossipLogger.info('Received message from topic:', msg.topic);
             this.messageHandler(msg.data); }
  \<close>
  There is no \<open>try\<close> around the call, so what the handler throws leaves the listener.
\<close>

definition on_gossipsub_message :: "handler \<Rightarrow> message \<Rightarrow> (error + unit) \<times> effect list" where
  "on_gossipsub_message h m =
     (let tr = [Log (ForComponent ''gossipsub'') Info ''Received message from topic:'' [AStr (msg_topic m)],
                HandlerCall [VBytes (msg_data m)]]
      in case h [VBytes (msg_data m)] of
           Some e \<Rightarrow> (Inl e, tr)
         | None \<Rightarrow> (Inr (), tr))"

text \<open>The calls made to the application's handler, read off a list of effects.\<close>

fun handler_calls :: "effect list \<Rightarrow> jsval list list" where
  "handler_calls [] = []"
| "handler_calls (HandlerCall args # es) = args # handler_calls es"
| "handler_calls (_ # es) = handler_calls es"

section \<open>Options and the private-network key\<close>

text \<open>
  \<open>P2PNodeOptions\<close>: every field is optional (\<open>None\<close> is \<open>undefined\<close>).
\<close>

record P2PNodeOptions =
  listenAddresses :: "string list option"
  bootstrapPeers :: "string list option"
  opt_staticPeers :: "string list option"
  usePrivateDHT :: "bool option"
  sharedKey :: "string option"
  dhtProtocolID :: "string option"
  port :: "nat option"

text \<open>JavaScript truthiness of an optional boolean and of an optional string.\<close>

definition truthy_bool :: "bool option \<Rightarrow> bool" where
  "truthy_bool b = (b = Some True)"

definition truthy_str :: "string option \<Rightarrow> bool" where
  "truthy_str x = (case x of None \<Rightarrow> False | Some s \<Rightarrow> s \<noteq> [])"

text \<open>
  \<open>new TextEncoder().encode\<close> is UTF-8: a code unit below 128 is one byte, one from 128
  to 255 is two bytes.
\<close>

definition utf8_unit :: "char \<Rightarrow> bytes" where
  "utf8_unit c =
     (let n = (of_char c :: nat)
      in if n < 128 then [of_nat n] else [of_nat (192 + n div 64), of_nat (128 + n mod 64)])"

definition TextEncoder_encode :: "string \<Rightarrow> bytes" where
  "TextEncoder_encode s = concat (map utf8_unit s)"

text \<open>
  The template \<^verbatim>\<open>`/key/swarm/psk/1.0.0/\n/base16/\n${options.sharedKey}`\<close>.
\<close>

definition pskString :: "string \<Rightarrow> string" where
  "pskString key = ''/key/swarm/psk/1.0.0/'' @ [CHR 0x0A] @ ''/base16/'' @ [CHR 0x0A] @ key"

text \<open>
  What \<open>init\<close> hands to \<open>createLibp2p\<close>, as far as it depends on the options: the listen
  addresses, the bootstrap list, the topics of the pubsub peer discovery, the protocol
  of the DHT, and the connection protector, set only
  \<^verbatim>\<open>if (options.usePrivateDHT && options.sharedKey)\<close>.
\<close>

record libp2p_options =
  listen :: "string list"
  bootstrap_list :: "string list"
  discovery_topics :: "string list"
  dht_protocol :: string
  connectionProtector :: "bytes option"

definition preSharedKey :: "P2PNodeOptions \<Rightarrow> bytes option" where
  "preSharedKey options =
     (if truthy_bool (usePrivateDHT options) \<and> truthy_str (sharedKey options)
      then Some (TextEncoder_encode (pskString (the (sharedKey options))))
      else None)"

definition libp2pOptions :: "string list \<Rightarrow> P2PNodeOptions \<Rightarrow> libp2p_options" where
  "libp2pOptions ts options =
     \<lparr> listen = (case listenAddresses options of
                   None \<Rightarrow> [''/ip4/0.0.0.0/tcp/0'']
                 | Some l \<Rightarrow> l),
       bootstrap_list = (case bootstrapPeers options of None \<Rightarrow> [] | Some l \<Rightarrow> l),
       discovery_topics = ts,
       dht_protocol =
         (if truthy_bool (usePrivateDHT options) \<and> truthy_str (dhtProtocolID options)
          then the (dhtProtocolID options) @ ''/kad/1.0.0''
          else ''/ipfs/kad/1.0.0''),
       connectionProtector = preSharedKey options \<rparr>"

section \<open>The libp2p node as the class sees it\<close>

text \<open>
  The node object holds what \<open>P2PNode\<close> reads and writes: its identifier, whether it is
  started, the connected peers (\<open>getPeers()\<close>, as strings), the subscribed topics of the
  pubsub service, the subscribers of a topic, the peer store (\<open>get\<close> rejects for an
  unknown peer), whether the DHT service is there, and the events that have a listener.
\<close>

record libp2p =
  created_with :: libp2p_options
  peerId :: string
  started :: bool
  getPeers :: "string list"
  subscriptions :: "string list"
  getSubscribers :: "string \<Rightarrow> string list"
  peerStore_get :: "string \<Rightarrow> error + string list"
  has_dht :: bool
  listeners :: "string list"

text \<open>
  The library decides the outcome of every call that can fail; these outcomes are the
  parameters of the model. \<open>createLibp2p\<close> fails or gives the identifier of the new node,
  \<open>node_dial\<close> fails or gives the connected peers after the dial, \<open>node_stop\<close> fails or
  gives the node after stopping, \<open>multiaddr\<close> and \<open>peerIdFromString\<close> throw on a
  malformed string.
\<close>

record overlay =
  createLibp2p :: "libp2p_options \<Rightarrow> error + string"
  node_start :: "libp2p \<Rightarrow> error option"
  node_stop :: "libp2p \<Rightarrow> error + libp2p"
  node_dial :: "libp2p \<Rightarrow> string \<Rightarrow> error + string list"
  multiaddr :: "string \<Rightarrow> error option"
  peerIdFromString :: "string \<Rightarrow> error option"
  dht_provide :: "libp2p \<Rightarrow> bytes \<Rightarrow> error option"
  pubsub_publish :: "libp2p \<Rightarrow> string \<Rightarrow> bytes \<Rightarrow> error option"

definition new_libp2p :: "string \<Rightarrow> libp2p_options \<Rightarrow> libp2p" where
  "new_libp2p pid lo =
     \<lparr> created_with = lo, peerId = pid, started = False, getPeers = [], subscriptions = [],
       getSubscribers = (\<lambda>_. []), peerStore_get = (\<lambda>_. Inl (Error ''NotFoundError'')),
       has_dht = True, listeners = [] \<rparr>"

text \<open>\<open>pubsub.subscribe(topic)\<close> adds the topic to the set of subscriptions.\<close>

definition pubsub_subscribe :: "string \<Rightarrow> libp2p \<Rightarrow> libp2p" where
  "pubsub_subscribe t n = n\<lparr>subscriptions := List.insert t (subscriptions n)\<rparr>"

definition addEventListener :: "string \<Rightarrow> libp2p \<Rightarrow> libp2p" where
  "addEventListener ev n = n\<lparr>listeners := listeners n @ [ev]\<rparr>"

section \<open>The class P2PNode\<close>

record P2PNode =
  node :: "libp2p option"
  topics :: "string list"
  messageHandler :: handler
  staticPeers :: "string list"
  reconnectionInterval :: "timeout option"

definition default_topics :: "string list" where
  "default_topics =
     [''bitcoin/mainnet-bestblock'', ''bitcoin/mainnet-block'', ''bitcoin/mainnet-subtree'',
      ''bitcoin/mainnet-mining_on'', ''bitcoin/mainnet-handshake'', ''bitcoin/mainnet-rejected_tx'']"

text \<open>The private constructor: only the handler is taken from the arguments.\<close>

definition constructor :: "handler \<Rightarrow> P2PNode" where
  "constructor h =
     \<lparr> node = None, topics = default_topics, messageHandler = h, staticPeers = [],
       reconnectionInterval = None \<rparr>"

subsection \<open>Subscribing and advertising the topics\<close>

text \<open>
  The loop \<^verbatim>\<open>for (const topic of this.topics)\<close> of \<open>init\<close>: subscribe, log the
  subscribers, then advertise the topic on the DHT inside a \<open>try\<close> whose \<open>catch\<close> logs
  a warning, so a failed \<open>provide\<close> does not end the loop.
\<close>

fun subscribe_topics :: "overlay \<Rightarrow> string list \<Rightarrow> libp2p \<Rightarrow> libp2p \<times> effect list" where
  "subscribe_topics ov [] n = (n, [])"
| "subscribe_topics ov (t # ts) n =
     (let n1 = pubsub_subscribe t n;
          key = TextEncoder_encode (''/pubsub/topic/'' @ t);
          e1 = [Log BaseLogger Info (''Subscribing to topic: '' @ t) [],
                Subscribe t,
                Log BaseLogger Info (''Subscribers for '' @ t @ '':'') [AStrs (getSubscribers n1 t)]];
          e2 = (if has_dht n1
                then (case dht_provide ov n1 key of
                        None \<Rightarrow> [Provide key, Log BaseLogger Info (''Advertising topic: '' @ t) []]
                      | Some e \<Rightarrow> [Provide key,
                                  Log BaseLogger Warn (''Failed to advertise topic '' @ t @ '':'') [AErr e]])
                else [Log BaseLogger Warn ''DHT service not available for topic advertising'' []]);
          r = subscribe_topics ov ts n1
      in (fst r, e1 @ e2 @ snd r))"

subsection \<open>Dialling the static peers\<close>

text \<open>
  \<open>connectToStaticPeers\<close> maps an async function over the addresses and awaits
  \<open>Promise.allSettled\<close>. Each call of the function runs up to its first \<open>await\<close> at
  once: it logs the attempt and calls \<open>this.node!.dial(multiaddr(peerAddr))\<close>, or, when
  \<open>multiaddr\<close> throws, logs the warning of its \<open>catch\<close>. The dials then complete; each
  success or failure is logged by the function of its own address. Completions are
  listed in the order of the addresses.
\<close>

fun start_dials :: "overlay \<Rightarrow> string list \<Rightarrow> effect list" where
  "start_dials ov [] = []"
| "start_dials ov (a # as) =
     Log BaseLogger Info (''Attempting to connect to static peer: '' @ a) [] #
     (case multiaddr ov a of
        Some e \<Rightarrow> [Log BaseLogger Warn (''Failed to connect to static peer '' @ a @ '':'') [AErr e]]
      | None \<Rightarrow> [Dial a]) @ start_dials ov as"

fun settle_dials :: "overlay \<Rightarrow> string list \<Rightarrow> libp2p \<Rightarrow> libp2p \<times> effect list" where
  "settle_dials ov [] n = (n, [])"
| "settle_dials ov (a # as) n =
     (case multiaddr ov a of
        Some e \<Rightarrow> settle_dials ov as n
      | None \<Rightarrow>
          (case node_dial ov n a of
             Inl e \<Rightarrow>
               (let r = settle_dials ov as n
                in (fst r, Log BaseLogger Warn (''Failed to connect to static peer '' @ a @ '':'') [AErr e] # snd r))
           | Inr ps \<Rightarrow>
               (let r = settle_dials ov as (n\<lparr>getPeers := ps\<rparr>)
                in (fst r, Log BaseLogger Info (''Successfully connected to static peer: '' @ a) [] # snd r))))"

definition connectToStaticPeers :: "overlay \<Rightarrow> string list \<Rightarrow> P2PNode \<Rightarrow> P2PNode \<times> effect list" where
  "connectToStaticPeers ov addrs s =
     (case node s of
        None \<Rightarrow> (s, [Log BaseLogger Warn ''Cannot connect to static peers: node not initialized'' []])
      | Some n \<Rightarrow>
          (let r = settle_dials ov addrs n
           in (s\<lparr>node := Some (fst r)\<rparr>,
               start_dials ov addrs @ snd r @
               [Log BaseLogger Info ''Static peer connection complete. Total connected peers:''
                  [ANum (length (getPeers (fst r)))]])))"

subsection \<open>The reconciliation tick\<close>

text \<open>
  \<^verbatim>\<open>staticPeer.match(/\/p2p\/([^/]+)$/)\<close>: the search tries every start position from
  the left; at a position the pattern needs the text \<open>/p2p/\<close>, then at least one
  character, none of them a slash, up to the end of the string. The result is the group.
\<close>

fun strip_prefix :: "string \<Rightarrow> string \<Rightarrow> string option" where
  "strip_prefix [] s = Some s"
| "strip_prefix (p # ps) [] = None"
| "strip_prefix (p # ps) (c # cs) = (if p = c then strip_prefix ps cs else None)"

definition match_here :: "string \<Rightarrow> string option" where
  "match_here s =
     (case strip_prefix ''/p2p/'' s of
        None \<Rightarrow> None
      | Some r \<Rightarrow> if r \<noteq> [] \<and> CHR ''/'' \<notin> set r then Some r else None)"

fun peerIdMatch :: "string \<Rightarrow> string option" where
  "peerIdMatch [] = None"
| "peerIdMatch (c # cs) =
     (case match_here (c # cs) of Some g \<Rightarrow> Some g | None \<Rightarrow> peerIdMatch cs)"

text \<open>
  The loop over \<open>this.staticPeers\<close> that collects \<open>disconnectedStaticPeers\<close>: an address
  is pushed when the pattern matches and the identifier is not among the connected ones.
\<close>

fun disconnectedStaticPeers :: "string list \<Rightarrow> string list \<Rightarrow> string list" where
  "disconnectedStaticPeers connectedPeerIds [] = []"
| "disconnectedStaticPeers connectedPeerIds (sp # sps) =
     (case peerIdMatch sp of
        Some pid \<Rightarrow>
          if pid \<in> set connectedPeerIds then disconnectedStaticPeers connectedPeerIds sps
          else sp # disconnectedStaticPeers connectedPeerIds sps
      | None \<Rightarrow> disconnectedStaticPeers connectedPeerIds sps)"

text \<open>The callback given to \<open>setInterval\<close> by \<open>startStaticPeerMonitoring\<close>.\<close>

definition tick :: "overlay \<Rightarrow> P2PNode \<Rightarrow> P2PNode \<times> effect list" where
  "tick ov s =
     (case node s of
        None \<Rightarrow> (s, [])
      | Some n \<Rightarrow>
          if staticPeers s = [] then (s, [])
          else (let d = disconnectedStaticPeers (getPeers n) (staticPeers s)
                in if d \<noteq> []
                   then (let r = connectToStaticPeers ov d s
                         in (fst r, Log BaseLogger Info ''Reconnecting to disconnected static peers...''
                                      [ANum (length d)] # snd r))
                   else (s, [])))"

definition startStaticPeerMonitoring :: "P2PNode \<Rightarrow> P2PNode \<times> effect list" where
  "startStaticPeerMonitoring s =
     (s\<lparr>reconnectionInterval := Some (Timeout 30000)\<rparr>, [SetInterval 30000])"


subsection \<open>init and create\<close>

text \<open>
  \<open>init\<close> builds the options, creates and starts the node (either may reject, and then
  \<open>init\<close> rejects), adds the three peer listeners, subscribes to the topics, adds the
  \<open>gossipsub:message\<close> listener and, when static peers are configured, stores them,
  dials them and starts the monitoring. The peer listeners log, and the one for
  \<open>peer:discovery\<close> dials the discovered peer inside a \<open>try\<close> of its own; only their
  registration is kept here.
\<close>

definition init :: "overlay \<Rightarrow> P2PNodeOptions \<Rightarrow> P2PNode \<Rightarrow> (error + unit) \<times> P2PNode \<times> effect list" where
  "init ov options s =
     (let lo = libp2pOptions (topics s) options;
          tr0 = (if truthy_bool (usePrivateDHT options) \<and> truthy_str (sharedKey options)
                 then [Log BaseLogger Info ''Using private DHT with shared key:''
                         [AStr (the (sharedKey options))],
                       Log BaseLogger Info ''PSK formatted string:''
                         [AStr (pskString (the (sharedKey options)))]]
                 else []) @
                [Log BaseLogger Info ''Creating libp2p node with options:'' [], CreateLibp2p]
      in case createLibp2p ov lo of
           Inl e \<Rightarrow> (Inl e, s, tr0)
         | Inr pid \<Rightarrow>
             (let n0 = new_libp2p pid lo;
                  tr1 = tr0 @ [Log BaseLogger Info ''Starting libp2p node...'' [], NodeStart]
              in case node_start ov n0 of
                   Some e \<Rightarrow> (Inl e, s\<lparr>node := Some n0\<rparr>, tr1)
                 | None \<Rightarrow>
                     (let n1 = addEventListener ''peer:disconnect''
                                 (addEventListener ''peer:connect''
                                   (addEventListener ''peer:discovery'' (n0\<lparr>started := True\<rparr>)));
                          r = subscribe_topics ov (topics s) n1;
                          n2 = addEventListener ''gossipsub:message'' (fst r);
                          s2 = s\<lparr>node := Some n2\<rparr>;
                          tr2 = tr1 @ [Log BaseLogger Info ''Libp2p node started successfully'' []] @ snd r
                      in case opt_staticPeers options of
                           None \<Rightarrow> (Inr (), s2, tr2)
                         | Some sps \<Rightarrow>
                             if sps \<noteq> []
                             then (let c = connectToStaticPeers ov sps (s2\<lparr>staticPeers := sps\<rparr>);
                                       m = startStaticPeerMonitoring (fst c)
                                   in (Inr (), fst m,
                                       tr2 @ [Log BaseLogger Info ''Connecting to static peers...''
                                                [ANum (length sps)]] @ snd c @ snd m))
                             else (Inr (), s2, tr2))))"

definition create :: "overlay \<Rightarrow> handler \<Rightarrow> P2PNodeOptions \<Rightarrow> (error + P2PNode) \<times> effect list" where
  "create ov h options =
     (let r = init ov options (constructor h)
      in case fst r of
           Inl e \<Rightarrow> (Inl e, snd (snd r))
         | Inr u \<Rightarrow> (Inr (fst (snd r)), snd (snd r)))"

text \<open>
  The pubsub service emits a \<open>gossipsub:message\<close> event: the listener runs once for
  each time it has been added. The first error a run raises is the one reported.
\<close>

fun emit :: "nat \<Rightarrow> handler \<Rightarrow> message \<Rightarrow> (error + unit) \<times> effect list" where
  "emit 0 h m = (Inr (), [])"
| "emit (Suc k) h m =
     (let r = on_gossipsub_message h m; r' = emit k h m
      in (case fst r of Inl e \<Rightarrow> Inl e | Inr u \<Rightarrow> fst r', snd r @ snd r'))"

definition deliver :: "P2PNode \<Rightarrow> message \<Rightarrow> (error + unit) \<times> effect list" where
  "deliver s m =
     (case node s of
        None \<Rightarrow> (Inr (), [])
      | Some n \<Rightarrow> emit (count_list (listeners n) ''gossipsub:message'') (messageHandler s) m)"

subsection \<open>Resolving and dialling a peer by its identifier\<close>

definition discoverPeerById :: "overlay \<Rightarrow> P2PNode \<Rightarrow> string \<Rightarrow> string option \<times> effect list" where
  "discoverPeerById ov s pid =
     (case node s of
        None \<Rightarrow> (None, [])
      | Some n \<Rightarrow>
          (let tr = [Log BaseLogger Info (''Searching for peer '' @ pid @ '' in DHT...'') []];
               failed = (\<lambda>e. Log BaseLogger Warn (''Failed to find peer '' @ pid @ '':'') [AErr e])
           in case peerIdFromString ov pid of
                Some e \<Rightarrow> (None, tr @ [failed e])
              | None \<Rightarrow>
                  (case peerStore_get n pid of
                     Inl e \<Rightarrow> (None, tr @ [failed e])
                   | Inr [] \<Rightarrow> (None, tr)
                   | Inr (a # as) \<Rightarrow>
                       (Some a, tr @ [Log BaseLogger Info
                                        (''Found peer '' @ pid @ '' at address: '' @ a) []]))))"

definition connectToPeerById :: "overlay \<Rightarrow> P2PNode \<Rightarrow> string \<Rightarrow> P2PNode \<times> effect list" where
  "connectToPeerById ov s pid =
     (let d = discoverPeerById ov s pid;
          failed = (\<lambda>e. Log BaseLogger Warn (''Failed to connect to peer '' @ pid @ '':'') [AErr e])
      in if truthy_str (fst d)
         then (let a = the (fst d)
               in case multiaddr ov a of
                    Some e \<Rightarrow> (s, snd d @ [failed e])
                  | None \<Rightarrow>
                      (case node s of
                         None \<Rightarrow> (s, snd d @ [failed (Error ''TypeError'')])
                       | Some n \<Rightarrow>
                           (case node_dial ov n a of
                              Inl e \<Rightarrow> (s, snd d @ [Dial a, failed e])
                            | Inr ps \<Rightarrow>
                                (s\<lparr>node := Some (n\<lparr>getPeers := ps\<rparr>)\<rparr>,
                                 snd d @ [Dial a,
                                   Log BaseLogger Info
                                     (''Successfully connected to peer by ID: '' @ pid) []]))))
         else (s, snd d @ [Log BaseLogger Warn (''Could not discover address for peer '' @ pid) []]))"

subsection \<open>stop, publish and the queries\<close>

definition stop :: "overlay \<Rightarrow> P2PNode \<Rightarrow> (error + unit) \<times> P2PNode \<times> effect list" where
  "stop ov s =
     (let s1 = (case reconnectionInterval s of
                  Some t \<Rightarrow> s\<lparr>reconnectionInterval := None\<rparr>
                | None \<Rightarrow> s);
          tr1 = (case reconnectionInterval s of Some t \<Rightarrow> [ClearInterval t] | None \<Rightarrow> [])
      in case node s1 of
           None \<Rightarrow> (Inr (), s1, tr1)
         | Some n \<Rightarrow>
             (case node_stop ov n of
                Inl e \<Rightarrow> (Inl e, s1, tr1 @ [NodeStop])
              | Inr n' \<Rightarrow> (Inr (), s1\<lparr>node := Some n'\<rparr>, tr1 @ [NodeStop])))"

definition publish :: "overlay \<Rightarrow> P2PNode \<Rightarrow> string \<Rightarrow> bytes \<Rightarrow> (error + unit) \<times> effect list" where
  "publish ov s topic msg =
     (case node s of
        None \<Rightarrow> (Inl (Error ''Node not initialized''), [])
      | Some n \<Rightarrow>
          (case pubsub_publish ov n topic msg of
             Some e \<Rightarrow> (Inl e, [Publish topic msg])
           | None \<Rightarrow> (Inr (), [Publish topic msg,
                              Log BaseLogger Info (''Published message to topic: '' @ topic) []])))"

definition getConnectedPeers :: "P2PNode \<Rightarrow> string list" where
  "getConnectedPeers s = (case node s of None \<Rightarrow> [] | Some n \<Rightarrow> getPeers n)"

definition getNodeId :: "P2PNode \<Rightarrow> string option" where
  "getNodeId s = (case node s of None \<Rightarrow> None | Some n \<Rightarrow> Some (peerId n))"

text \<open>
  \<open>getSubscribers\<close> of the gossipsub service gives an array, so \<open>getTopicPeers\<close> returns
  it in its first branch.
\<close>

definition getTopicPeers :: "P2PNode \<Rightarrow> string \<Rightarrow> string list" where
  "getTopicPeers s topic = (case node s of None \<Rightarrow> [] | Some n \<Rightarrow> getSubscribers n topic)"

section \<open>Topics, callbacks and the states of a running session\<close>

text \<open>
  \<open>P2PNode\<close> keeps one handler, given to \<open>create\<close>, and the list \<open>topics\<close> it subscribes to;
  there is no table from topics to callbacks. The callback registered for a topic is
  therefore the handler when the topic is in the list, and there is none otherwise.
\<close>

definition callback_for :: "P2PNode \<Rightarrow> string \<Rightarrow> handler option" where
  "callback_for s T = (if T \<in> set (topics s) then Some (messageHandler s) else None)"

definition registered_topics :: "P2PNode \<Rightarrow> string set" where
  "registered_topics s = {T. callback_for s T \<noteq> None}"

definition subscribed_channels :: "P2PNode \<Rightarrow> string set" where
  "subscribed_channels s = (case node s of None \<Rightarrow> {} | Some n \<Rightarrow> set (subscriptions n))"

text \<open>
  The states of a session between \<open>create\<close> and \<open>stop\<close>: the state \<open>create\<close> returns, and
  what a reconciliation tick (the timer must be set), a \<open>connectToPeerById\<close> or the
  network (which changes the connected peers, the subscribers and the peer store) make
  of such a state. Message events, \<open>publish\<close> and the queries leave the state as it is.
\<close>

inductive running :: "P2PNode \<Rightarrow> bool" where
  created: "create ov h options = (Inr s, tr) \<Longrightarrow> running s"
| ticked: "running s \<Longrightarrow> reconnectionInterval s \<noteq> None \<Longrightarrow> running (fst (tick ov s))"
| dialled: "running s \<Longrightarrow> running (fst (connectToPeerById ov s pid))"
| network: "running s \<Longrightarrow> node s = Some n \<Longrightarrow>
            running (s\<lparr>node := Some (n\<lparr>getPeers := ps, getSubscribers := g, peerStore_get := f\<rparr>)\<rparr>)"

section \<open>Concrete sessions\<close>

text \<open>
  An overlay in which nothing fails except dialling, two handlers, and the sessions
  \<open>create\<close> returns for them.
\<close>

definition quiet_overlay :: overlay where
  "quiet_overlay =
     \<lparr> createLibp2p = (\<lambda>lo. Inr ''12D3KooWLocal''),
       node_start = (\<lambda>n. None),
       node_stop = (\<lambda>n. Inr (n\<lparr>started := False, getPeers := []\<rparr>)),
       node_dial = (\<lambda>n a. Inl (Error ''ECONNREFUSED'')),
       multiaddr = (\<lambda>a. None),
       peerIdFromString = (\<lambda>p. None),
       dht_provide = (\<lambda>n k. None),
       pubsub_publish = (\<lambda>n t m. None) \<rparr>"

definition returning_handler :: handler where
  "returning_handler = (\<lambda>args. None)"

definition throwing_handler :: handler where
  "throwing_handler = (\<lambda>args. Some (Error ''boom''))"

definition no_options :: P2PNodeOptions where
  "no_options =
     \<lparr> listenAddresses = None, bootstrapPeers = None, opt_staticPeers = None,
       usePrivateDHT = None, sharedKey = None, dhtProtocolID = None, port = None \<rparr>"

definition session_of :: "(error + P2PNode) \<times> effect list \<Rightarrow> P2PNode" where
  "session_of r = projr (fst r)"

definition quiet_session :: P2PNode where
  "quiet_session = session_of (create quiet_overlay returning_handler no_options)"

definition throwing_session :: P2PNode where
  "throwing_session = session_of (create quiet_overlay throwing_handler no_options)"

definition block_message :: message where
  "block_message =
     \<lparr> msg_topic = ''bitcoin/mainnet-block'', msg_data = [1, 2, 3], msg_from = ''12D3KooWPeer'' \<rparr>"


definition quiet_node :: libp2p where
  "quiet_node =
     \<lparr> created_with = libp2pOptions default_topics no_options,
       peerId = ''12D3KooWLocal'', started = True, getPeers = [],
       subscriptions = rev default_topics,
       getSubscribers = (\<lambda>t. []), peerStore_get = (\<lambda>p. Inl (Error ''NotFoundError'')),
       has_dht = True,
       listeners = [''peer:discovery'', ''peer:connect'', ''peer:disconnect'', ''gossipsub:message''] \<rparr>"

definition static_options :: "string list \<Rightarrow> P2PNodeOptions" where
  "static_options sps = no_options\<lparr>opt_staticPeers := Some sps\<rparr>"

definition static_session :: P2PNode where
  "static_session =
     session_of (create quiet_overlay returning_handler
                   (static_options [''/ip4/10.0.0.1/tcp/4001/p2p/12D3KooWStatic1'']))"

definition stopped_session :: P2PNode where
  "stopped_session = fst (snd (stop quiet_overlay static_session))"

section \<open>Hexadecimal secrets\<close>





section \<open>Addresses that name a peer\<close>










section \<open>Every state a session can reach\<close>

text \<open>
  The states of a session from \<open>create\<close> on, \<open>stop\<close> included: \<open>stop\<close> may be called in
  any state, whatever it returns, and the other operations and the network may go on
  after it.
\<close>

inductive reachable :: "P2PNode \<Rightarrow> bool" where
  run: "running s \<Longrightarrow> reachable s"
| stopped: "reachable s \<Longrightarrow> reachable (fst (snd (stop ov s)))"
| ticked_again: "reachable s \<Longrightarrow> reconnectionInterval s \<noteq> None \<Longrightarrow> reachable (fst (tick ov s))"
| dialled_again: "reachable s \<Longrightarrow> reachable (fst (connectToPeerById ov s pid))"
| network_again: "reachable s \<Longrightarrow> node s = Some n \<Longrightarrow>
            reachable (s\<lparr>node := Some (n\<lparr>getPeers := ps, getSubscribers := g, peerStore_get := f\<rparr>)\<rparr>)"


text \<open>
  Two more overlays: one whose \<open>stop\<close> also drops the subscriptions of the pubsub
  service, and one whose \<open>stop\<close> rejects when the node is not started. Then the sessions
  left by a \<open>stop\<close> in them, and options that carry a secret without the flag of the
  private network.
\<close>

definition clearing_overlay :: overlay where
  "clearing_overlay =
     quiet_overlay\<lparr> node_stop :=
       (\<lambda>n. Inr (n\<lparr>started := False, getPeers := [], subscriptions := []\<rparr>)) \<rparr>"


definition cleared_session :: P2PNode where
  "cleared_session = fst (snd (stop clearing_overlay quiet_session))"



section \<open>The listener\<close>

lemma handler_calls_listener:
  "handler_calls (snd (on_gossipsub_message h m)) = [[VBytes (msg_data m)]]"
  by (simp add: on_gossipsub_message_def Let_def split: option.splits)

section \<open>What init establishes and the session keeps\<close>

lemma subscribe_topics_listeners:
  "listeners (fst (subscribe_topics ov ts n)) = listeners n"
  by (induction ts arbitrary: n) (simp_all add: Let_def pubsub_subscribe_def)

lemma subscribe_topics_started:
  "started (fst (subscribe_topics ov ts n)) = started n"
  by (induction ts arbitrary: n) (simp_all add: Let_def pubsub_subscribe_def)

lemma subscribe_topics_subscriptions:
  "set (subscriptions (fst (subscribe_topics ov ts n))) = set (subscriptions n) \<union> set ts"
  by (induction ts arbitrary: n) (auto simp: Let_def pubsub_subscribe_def)

lemma settle_dials_more:
  "listeners (fst (settle_dials ov as n)) = listeners n \<and>
   subscriptions (fst (settle_dials ov as n)) = subscriptions n \<and>
   started (fst (settle_dials ov as n)) = started n"
  by (induction as arbitrary: n) (auto simp: Let_def split: option.splits sum.splits)

lemma connectToStaticPeers_fields:
  "topics (fst (connectToStaticPeers ov as s)) = topics s \<and>
   messageHandler (fst (connectToStaticPeers ov as s)) = messageHandler s \<and>
   staticPeers (fst (connectToStaticPeers ov as s)) = staticPeers s \<and>
   reconnectionInterval (fst (connectToStaticPeers ov as s)) = reconnectionInterval s"
  by (simp add: connectToStaticPeers_def Let_def split: option.splits)

lemma connectToStaticPeers_node:
  "node (fst (connectToStaticPeers ov as s)) = map_option (\<lambda>n. fst (settle_dials ov as n)) (node s)"
  by (simp add: connectToStaticPeers_def Let_def split: option.splits)

lemma init_state:
  "fst (init ov options s) = Inr u \<Longrightarrow>
   \<exists>n. node (fst (snd (init ov options s))) = Some n \<and>
       listeners n = [''peer:discovery'', ''peer:connect'', ''peer:disconnect'', ''gossipsub:message''] \<and>
       set (subscriptions n) = set (topics s) \<and> started n"
  unfolding init_def Let_def
  by (simp add: startStaticPeerMonitoring_def addEventListener_def
      subscribe_topics_listeners subscribe_topics_started subscribe_topics_subscriptions
      new_libp2p_def connectToStaticPeers_node settle_dials_more
      split: sum.splits option.splits if_splits)

lemma init_fields:
  "topics (fst (snd (init ov options s))) = topics s \<and>
   messageHandler (fst (snd (init ov options s))) = messageHandler s"
  unfolding init_def Let_def
  by (simp add: startStaticPeerMonitoring_def connectToStaticPeers_fields
      split: sum.splits option.splits if_splits)

lemma init_success:
  assumes "init ov options s = (Inr u, s', tr)"
  shows "\<exists>n. node s' = Some n \<and>
             listeners n = [''peer:discovery'', ''peer:connect'', ''peer:disconnect'', ''gossipsub:message''] \<and>
             set (subscriptions n) = set (topics s) \<and> started n"
    and "topics s' = topics s" and "messageHandler s' = messageHandler s"
  using init_state [of ov options s u] init_fields [of ov options s] assms by simp_all


lemma tick_keeps:
  "topics (fst (tick ov s)) = topics s \<and> messageHandler (fst (tick ov s)) = messageHandler s"
  by (simp add: tick_def Let_def connectToStaticPeers_fields split: option.splits)

lemma tick_node:
  "node s = Some n \<Longrightarrow>
   \<exists>n'. node (fst (tick ov s)) = Some n' \<and> listeners n' = listeners n \<and>
        subscriptions n' = subscriptions n"
  by (simp add: tick_def Let_def connectToStaticPeers_node settle_dials_more)

lemma connectToPeerById_keeps:
  "topics (fst (connectToPeerById ov s pid)) = topics s \<and>
   messageHandler (fst (connectToPeerById ov s pid)) = messageHandler s"
  by (simp add: connectToPeerById_def Let_def split: option.splits sum.splits)

lemma connectToPeerById_node:
  "node s = Some n \<Longrightarrow>
   \<exists>n'. node (fst (connectToPeerById ov s pid)) = Some n' \<and> listeners n' = listeners n \<and>
        subscriptions n' = subscriptions n"
  by (simp add: connectToPeerById_def Let_def split: option.splits sum.splits)

lemma create_init:
  "create ov h options = (Inr s, tr) \<Longrightarrow> init ov options (constructor h) = (Inr (), s, tr)"
  by (auto simp: create_def Let_def prod_eq_iff split: sum.splits)

lemma running_inv:
  "running s \<Longrightarrow>
   \<exists>n. node s = Some n \<and>
       listeners n = [''peer:discovery'', ''peer:connect'', ''peer:disconnect'', ''gossipsub:message''] \<and>
       set (subscriptions n) = set (topics s)"
proof (induction rule: running.induct)
  case (created ov h options s tr)
  from init_success(1) [OF create_init [OF this]] init_success(2) [OF create_init [OF created]]
  show ?case by auto
next
  case (ticked s ov)
  then obtain n where n: "node s = Some n"
    "listeners n = [''peer:discovery'', ''peer:connect'', ''peer:disconnect'', ''gossipsub:message'']"
    "set (subscriptions n) = set (topics s)" by blast
  from tick_node [OF n(1), of ov] n(2,3) show ?case by (auto simp: tick_keeps)
next
  case (dialled s ov pid)
  then obtain n where n: "node s = Some n"
    "listeners n = [''peer:discovery'', ''peer:connect'', ''peer:disconnect'', ''gossipsub:message'']"
    "set (subscriptions n) = set (topics s)" by blast
  from connectToPeerById_node [OF n(1), of ov pid] n(2,3) show ?case
    by (auto simp: connectToPeerById_keeps)
next
  case (network s n ps g f)
  then show ?case by auto
qed

lemma emit_once: "emit (Suc 0) h m = on_gossipsub_message h m"
  by (cases "h [VBytes (msg_data m)]") (simp_all add: on_gossipsub_message_def Let_def)

lemma running_deliver:
  assumes "running s"
  shows "deliver s m = on_gossipsub_message (messageHandler s) m"
proof -
  from running_inv [OF assms] obtain n where n: "node s = Some n"
    and l: "listeners n = [''peer:discovery'', ''peer:connect'', ''peer:disconnect'', ''gossipsub:message'']"
    by blast
  have "count_list (listeners n) ''gossipsub:message'' = Suc 0"
    unfolding l by simp
  with n show ?thesis by (simp add: deliver_def emit_once del: emit.simps)
qed

subsection \<open>The concrete sessions\<close>

lemma settle_dials_quiet: "settle_dials quiet_overlay as n = (n, map (\<lambda>a. Log BaseLogger Warn (''Failed to connect to static peer '' @ a @ '':'') [AErr (Error ''ECONNREFUSED'')]) as)"
  by (induction as) (simp_all add: quiet_overlay_def Let_def)

lemma subscribe_topics_quiet:
  "fst (subscribe_topics quiet_overlay ts n) = foldl (\<lambda>n t. pubsub_subscribe t n) n ts"
  by (induction ts arbitrary: n) (simp_all add: Let_def)

lemma quiet_overlay_simps:
  "createLibp2p quiet_overlay lo = Inr ''12D3KooWLocal''"
  "node_start quiet_overlay n = None"
  "node_stop quiet_overlay n = Inr (n\<lparr>started := False, getPeers := []\<rparr>)"
  "node_dial quiet_overlay n a = Inl (Error ''ECONNREFUSED'')"
  "multiaddr quiet_overlay a = None"
  "peerIdFromString quiet_overlay p = None"
  "dht_provide quiet_overlay n k = None"
  "pubsub_publish quiet_overlay n t m = None"
  by (simp_all add: quiet_overlay_def)

lemma init_state_eq:
  assumes "createLibp2p ov (libp2pOptions (topics s) options) = Inr pid"
    and "node_start ov (new_libp2p pid (libp2pOptions (topics s) options)) = None"
    and "addEventListener ''gossipsub:message''
           (fst (subscribe_topics ov (topics s)
              (addEventListener ''peer:disconnect''
                (addEventListener ''peer:connect''
                  (addEventListener ''peer:discovery''
                    ((new_libp2p pid (libp2pOptions (topics s) options))\<lparr>started := True\<rparr>)))))) = n2"
  shows "fst (init ov options s) = Inr ()"
    and "fst (snd (init ov options s)) =
       (case opt_staticPeers options of
          None \<Rightarrow> s\<lparr>node := Some n2\<rparr>
        | Some sps \<Rightarrow>
            if sps \<noteq> []
            then fst (startStaticPeerMonitoring (fst (connectToStaticPeers ov sps (s\<lparr>node := Some n2, staticPeers := sps\<rparr>))))
            else s\<lparr>node := Some n2\<rparr>)"
  using assms unfolding init_def Let_def
  by (simp_all split: option.splits)


lemma insert_topics:
  "foldl (\<lambda>n t. pubsub_subscribe t n) n default_topics = n\<lparr>subscriptions := rev default_topics\<rparr>"
  if "subscriptions n = []"
  using that by (simp add: default_topics_def pubsub_subscribe_def)


lemma quiet_node_eq:
  "addEventListener ''gossipsub:message''
     (fst (subscribe_topics quiet_overlay default_topics
        (addEventListener ''peer:disconnect''
          (addEventListener ''peer:connect''
            (addEventListener ''peer:discovery''
              ((new_libp2p ''12D3KooWLocal'' (libp2pOptions default_topics no_options))\<lparr>started := True\<rparr>)))))) = quiet_node"
  unfolding subscribe_topics_quiet
  by (subst insert_topics) (simp_all add: addEventListener_def new_libp2p_def quiet_node_def)

lemma libp2pOptions_static: "libp2pOptions ts (static_options sps) = libp2pOptions ts no_options"
  by (simp add: libp2pOptions_def static_options_def preSharedKey_def)


lemma create_fst:
  "fst (init ov options (constructor h)) = Inr () \<Longrightarrow>
   fst (create ov h options) = Inr (fst (snd (init ov options (constructor h))))"
  by (simp add: create_def Let_def)

lemma connectToStaticPeers_quiet:
  "node s = Some n \<Longrightarrow> fst (connectToStaticPeers quiet_overlay sps s) = s"
  by (simp add: connectToStaticPeers_def settle_dials_quiet Let_def)

lemma create_quiet_static:
  assumes "sps \<noteq> []"
  shows "fst (create quiet_overlay h (static_options sps)) =
     Inr \<lparr> node = Some quiet_node, topics = default_topics, messageHandler = h, staticPeers = sps,
           reconnectionInterval = Some (Timeout 30000) \<rparr>"
proof -
  have t: "topics (constructor h) = default_topics" by (simp add: constructor_def)
  have n2: "addEventListener ''gossipsub:message''
     (fst (subscribe_topics quiet_overlay (topics (constructor h))
        (addEventListener ''peer:disconnect''
          (addEventListener ''peer:connect''
            (addEventListener ''peer:discovery''
              ((new_libp2p ''12D3KooWLocal'' (libp2pOptions (topics (constructor h)) (static_options sps)))\<lparr>started := True\<rparr>)))))) = quiet_node"
    unfolding t libp2pOptions_static by (rule quiet_node_eq)
  note i = init_state_eq [OF quiet_overlay_simps(1) quiet_overlay_simps(2) n2]
  have o: "opt_staticPeers (static_options sps) = Some sps" by (simp add: static_options_def)
  have "fst (snd (init quiet_overlay (static_options sps) (constructor h))) =
     \<lparr> node = Some quiet_node, topics = default_topics, messageHandler = h, staticPeers = sps,
           reconnectionInterval = Some (Timeout 30000) \<rparr>"
    unfolding i(2) o using assms
    by (simp add: connectToStaticPeers_quiet startStaticPeerMonitoring_def constructor_def)
  with create_fst [OF i(1)] show ?thesis by simp
qed

lemma create_quiet:
  "fst (create quiet_overlay h no_options) =
     Inr \<lparr> node = Some quiet_node, topics = default_topics, messageHandler = h, staticPeers = [],
           reconnectionInterval = None \<rparr>"
proof -
  have t: "topics (constructor h) = default_topics" by (simp add: constructor_def)
  have n2: "addEventListener ''gossipsub:message''
     (fst (subscribe_topics quiet_overlay (topics (constructor h))
        (addEventListener ''peer:disconnect''
          (addEventListener ''peer:connect''
            (addEventListener ''peer:discovery''
              ((new_libp2p ''12D3KooWLocal'' (libp2pOptions (topics (constructor h)) no_options))\<lparr>started := True\<rparr>)))))) = quiet_node"
    unfolding t by (rule quiet_node_eq)
  note i = init_state_eq [OF quiet_overlay_simps(1) quiet_overlay_simps(2) n2]
  have o: "opt_staticPeers no_options = None" by (simp add: no_options_def)
  have "fst (snd (init quiet_overlay no_options (constructor h))) =
     \<lparr> node = Some quiet_node, topics = default_topics, messageHandler = h, staticPeers = [],
           reconnectionInterval = None \<rparr>"
    unfolding i(2) o by (simp add: constructor_def)
  with create_fst [OF i(1)] show ?thesis by simp
qed

lemma create_quiet_pair:
  "create quiet_overlay h no_options =
     (Inr (session_of (create quiet_overlay h no_options)), snd (create quiet_overlay h no_options))"
  by (simp add: session_of_def create_quiet prod_eq_iff)

lemma quiet_session_running: "running quiet_session"
  unfolding quiet_session_def by (rule running.created [OF create_quiet_pair])

lemma throwing_session_running: "running throwing_session"
  unfolding throwing_session_def by (rule running.created [OF create_quiet_pair])

lemma quiet_session_eval:
  "topics quiet_session = default_topics" "messageHandler quiet_session = returning_handler"
  by (simp_all add: quiet_session_def session_of_def create_quiet)

lemma throwing_session_eval:
  "topics throwing_session = default_topics" "messageHandler throwing_session = throwing_handler"
  by (simp_all add: throwing_session_def session_of_def create_quiet)


lemma quiet_session_eq:
  "quiet_session =
     \<lparr> node = Some quiet_node, topics = default_topics, messageHandler = returning_handler,
       staticPeers = [], reconnectionInterval = None \<rparr>"
  by (simp add: quiet_session_def session_of_def create_quiet)

lemma static_session_eq:
  "static_session =
     \<lparr> node = Some quiet_node, topics = default_topics, messageHandler = returning_handler,
       staticPeers = [''/ip4/10.0.0.1/tcp/4001/p2p/12D3KooWStatic1''],
       reconnectionInterval = Some (Timeout 30000) \<rparr>"
  by (simp add: static_session_def session_of_def create_quiet_static)



section \<open>Dispatch of inbound messages\<close>

text \<open>
  Claim C1, as the code has it. In a running session, a message event on a topic of the
  node's topic list calls the callback of that topic, which is the one handler given to
  \<open>create\<close>, exactly once, and the payload bytes are its only argument, unchanged. The
  topic name and the identifier of the originating peer are not passed: the call is
  \<open>this.messageHandler(msg.data)\<close>.
\<close>

theorem listener_calls_handler_with_payload_only:
  assumes "running s" and "callback_for s (msg_topic m) = Some cb"
  shows "cb = messageHandler s \<and> handler_calls (snd (deliver s m)) = [[VBytes (msg_data m)]]"
  using assms
  by (auto simp: running_deliver handler_calls_listener callback_for_def split: if_splits)

theorem listener_calls_handler_with_payload_only_witness:
  "running quiet_session \<and>
   callback_for quiet_session (msg_topic block_message) = Some returning_handler \<and>
   handler_calls (snd (deliver quiet_session block_message)) = [[VBytes [1, 2, 3]]]"
proof -
  have c: "callback_for quiet_session (msg_topic block_message) = Some returning_handler"
    by (simp add: callback_for_def quiet_session_eval block_message_def default_topics_def)
  from listener_calls_handler_with_payload_only [OF quiet_session_running c] c quiet_session_running
  show ?thesis by (simp add: block_message_def)
qed

text \<open>
  C1 as stated asks for the call \<open>(payload, topic, originPeerId)\<close>. For a block message
  in the session created with no options, the one call made has another argument list.
\<close>

theorem callback_arguments_counterexample:
  "running quiet_session \<and>
   callback_for quiet_session (msg_topic block_message) = Some returning_handler \<and>
   handler_calls (snd (deliver quiet_session block_message)) \<noteq>
     [[VBytes (msg_data block_message), VStr (msg_topic block_message), VStr (msg_from block_message)]]"
  by (simp add: quiet_session_running running_deliver handler_calls_listener
        callback_for_def quiet_session_eval block_message_def default_topics_def)

text \<open>
  Claim C5, as the code has it. When the handler raises an error for a message, the
  listener does not catch it: the error leaves the listener, towards the event source,
  and the listener logs nothing about it. Its only effects are the log of the topic and
  the call of the handler. A delivery changes nothing in the node.
\<close>

theorem handler_error_leaves_listener:
  assumes "running s" and "messageHandler s [VBytes (msg_data m)] = Some e"
  shows "deliver s m =
           (Inl e, [Log (ForComponent ''gossipsub'') Info ''Received message from topic:'' [AStr (msg_topic m)],
                    HandlerCall [VBytes (msg_data m)]])"
  using assms by (simp add: running_deliver on_gossipsub_message_def)

theorem handler_error_leaves_listener_witness:
  "running throwing_session \<and>
   messageHandler throwing_session [VBytes (msg_data block_message)] = Some (Error ''boom'') \<and>
   deliver throwing_session block_message =
     (Inl (Error ''boom''),
      [Log (ForComponent ''gossipsub'') Info ''Received message from topic:'' [AStr ''bitcoin/mainnet-block''],
       HandlerCall [VBytes [1, 2, 3]]])"
proof -
  have h: "messageHandler throwing_session [VBytes (msg_data block_message)] = Some (Error ''boom'')"
    by (simp add: throwing_session_eval throwing_handler_def)
  from handler_error_leaves_listener [OF throwing_session_running h] h throwing_session_running
  show ?thesis by (simp add: block_message_def)
qed

text \<open>
  C5 as stated has the error caught at the dispatch boundary, so that the dispatch
  returns normally. With a handler that throws, the dispatch of a block message ends
  with the handler's error.
\<close>

theorem handler_error_counterexample:
  "running throwing_session \<and>
   messageHandler throwing_session [VBytes (msg_data block_message)] = Some (Error ''boom'') \<and>
   fst (deliver throwing_session block_message) = Inl (Error ''boom'') \<and>
   fst (deliver throwing_session block_message) \<noteq> Inr ()"
  by (simp add: throwing_session_running running_deliver on_gossipsub_message_def
        throwing_session_eval throwing_handler_def)



section \<open>Subscriptions\<close>

lemma running_topics: "running s \<Longrightarrow> topics s = default_topics"
proof (induction rule: running.induct)
  case (created ov h options s tr)
  from init_success(2) [OF create_init [OF this]] show ?case by (simp add: constructor_def)
next
  case (ticked s ov)
  then show ?case by (simp add: tick_keeps)
next
  case (dialled s ov pid)
  then show ?case by (simp add: connectToPeerById_keeps)
next
  case (network s n ps g f)
  then show ?case by simp
qed

text \<open>
  Claim C2, as the code has it. In every state of a session from \<open>create\<close> until
  \<open>stop\<close>, the topics the pubsub service is subscribed to are exactly the topics of the
  list \<open>this.topics\<close>, the six default topics: \<open>init\<close> subscribes to every topic of the
  list, also when advertising one fails, and nothing afterwards subscribes, unsubscribes
  or changes the list. The class has no callbacks per topic; its one handler serves
  the list.
\<close>

theorem subscriptions_until_stop:
  assumes "running s"
  shows "subscribed_channels s = set (topics s) \<and> topics s = default_topics"
proof -
  from running_inv [OF assms] obtain n where
    n: "node s = Some n" and sub: "set (subscriptions n) = set (topics s)" by blast
  from n sub running_topics [OF assms] show ?thesis by (simp add: subscribed_channels_def)
qed

theorem subscriptions_until_stop_witness:
  "running quiet_session \<and> subscribed_channels quiet_session = set default_topics \<and>
   ''bitcoin/mainnet-block'' \<in> subscribed_channels quiet_session"
proof -
  from subscriptions_until_stop [OF quiet_session_running] quiet_session_running
  show ?thesis by (simp add: default_topics_def)
qed

lemma cleared_session_eq:
  "cleared_session = quiet_session\<lparr>node := Some (quiet_node\<lparr>started := False, getPeers := [], subscriptions := []\<rparr>)\<rparr>"
  by (simp add: cleared_session_def stop_def Let_def quiet_session_eq clearing_overlay_def)

text \<open>
  C2 as stated holds in every reachable state. \<open>stop\<close> leaves the topic list and the
  handler in place; in an overlay whose \<open>stop\<close> drops the subscriptions of the pubsub
  service, the session it leaves is subscribed to nothing.
\<close>

theorem subscriptions_after_stop_counterexample:
  "reachable cleared_session \<and> messageHandler cleared_session = returning_handler \<and>
   topics cleared_session = default_topics \<and>
   registered_topics cleared_session = set default_topics \<and>
   subscribed_channels cleared_session = {} \<and>
   subscribed_channels cleared_session \<noteq> registered_topics cleared_session"
proof -
  have r: "reachable cleared_session"
    unfolding cleared_session_def by (rule reachable.stopped [OF reachable.run [OF quiet_session_running]])
  have t: "topics cleared_session = default_topics" "messageHandler cleared_session = returning_handler"
    by (simp_all add: cleared_session_eq quiet_session_eq)
  have g: "registered_topics cleared_session = set default_topics"
    by (simp add: registered_topics_def callback_for_def t)
  have s: "subscribed_channels cleared_session = {}"
    by (simp add: subscribed_channels_def cleared_session_eq)
  have "set default_topics \<noteq> ({} :: string set)" by (simp add: default_topics_def)
  with r t g s show ?thesis by simp
qed

section \<open>The private-network key\<close>














section \<open>Calls made in the states a session can reach\<close>

lemma stop_node: "node s = Some n \<Longrightarrow> \<exists>n'. node (fst (snd (stop ov s))) = Some n'"
  by (cases "node_stop ov n") (simp_all add: stop_def Let_def split: option.splits)

lemma tick_node_Some: "node s = Some n \<Longrightarrow> \<exists>n'. node (fst (tick ov s)) = Some n'"
  using tick_node by blast

lemma connectToPeerById_node_Some:
  "node s = Some n \<Longrightarrow> \<exists>n'. node (fst (connectToPeerById ov s pid)) = Some n'"
  using connectToPeerById_node by blast

lemma reachable_node: "reachable s \<Longrightarrow> \<exists>n. node s = Some n"
proof (induction rule: reachable.induct)
  case (run s)
  then show ?case using running_inv by blast
next
  case (stopped s ov)
  then show ?case using stop_node by blast
next
  case (ticked_again s ov)
  then show ?case using tick_node_Some by blast
next
  case (dialled_again s ov pid)
  then show ?case using connectToPeerById_node_Some by blast
next
  case (network_again s n ps g f)
  then show ?case by simp
qed

lemma static_session_running: "running static_session"
  unfolding static_session_def
proof (rule running.created)
  show "create quiet_overlay returning_handler (static_options [''/ip4/10.0.0.1/tcp/4001/p2p/12D3KooWStatic1'']) =
      (Inr (session_of (create quiet_overlay returning_handler (static_options [''/ip4/10.0.0.1/tcp/4001/p2p/12D3KooWStatic1'']))),
       snd (create quiet_overlay returning_handler (static_options [''/ip4/10.0.0.1/tcp/4001/p2p/12D3KooWStatic1''])))"
    by (simp add: session_of_def create_quiet_static prod_eq_iff)
qed

lemma stopped_session_reachable: "reachable stopped_session"
  unfolding stopped_session_def
  by (rule reachable.stopped [OF reachable.run [OF static_session_running]])

lemma stopped_session_eq:
  "stopped_session =
     \<lparr> node = Some (quiet_node\<lparr>started := False, getPeers := []\<rparr>), topics = default_topics,
       messageHandler = returning_handler,
       staticPeers = [''/ip4/10.0.0.1/tcp/4001/p2p/12D3KooWStatic1''],
       reconnectionInterval = None \<rparr>"
  by (simp add: stopped_session_def stop_def Let_def static_session_eq quiet_overlay_simps)

text \<open>
  Claim C6, as the code has it. The guards of the queries and of \<open>publish\<close> test the node
  reference, and every state a session can reach has it: \<open>create\<close> returns after the
  node is set and \<open>stop\<close> keeps the reference. So in every reachable state, also after
  \<open>stop\<close>, \<open>getNodeId\<close> returns the identifier of the node, \<open>getConnectedPeers\<close> and
  \<open>getTopicPeers\<close> return what the node reports, and \<open>publish\<close> hands the message to the
  pubsub service of the node and raises what that raises.
\<close>

theorem calls_reach_the_node_in_every_state:
  assumes "reachable s"
  shows "\<exists>n. node s = Some n \<and> getNodeId s = Some (peerId n) \<and>
             getConnectedPeers s = getPeers n \<and>
             (\<forall>topic. getTopicPeers s topic = getSubscribers n topic) \<and>
             (\<forall>ov topic msg.
                publish ov s topic msg =
                  (case pubsub_publish ov n topic msg of
                     Some e \<Rightarrow> (Inl e, [Publish topic msg])
                   | None \<Rightarrow> (Inr (), [Publish topic msg,
                               Log BaseLogger Info (''Published message to topic: '' @ topic) []])))"
proof -
  from reachable_node [OF assms] obtain n where n: "node s = Some n" by blast
  then show ?thesis
    by (simp add: getNodeId_def getConnectedPeers_def getTopicPeers_def publish_def)
qed

theorem calls_reach_the_node_in_every_state_witness:
  "reachable stopped_session \<and>
   started (the (node stopped_session)) = False \<and>
   getNodeId stopped_session = Some ''12D3KooWLocal'' \<and>
   getConnectedPeers stopped_session = [] \<and>
   publish quiet_overlay stopped_session ''bitcoin/mainnet-block'' [1, 2, 3] =
     (Inr (), [Publish ''bitcoin/mainnet-block'' [1, 2, 3],
               Log BaseLogger Info ''Published message to topic: bitcoin/mainnet-block'' []])"
proof -
  from calls_reach_the_node_in_every_state [OF stopped_session_reachable]
  obtain n where n: "node stopped_session = Some n"
    and i: "getNodeId stopped_session = Some (peerId n)"
    and c: "getConnectedPeers stopped_session = getPeers n"
    and p: "\<forall>ov topic msg.
                publish ov stopped_session topic msg =
                  (case pubsub_publish ov n topic msg of
                     Some e \<Rightarrow> (Inl e, [Publish topic msg])
                   | None \<Rightarrow> (Inr (), [Publish topic msg,
                               Log BaseLogger Info (''Published message to topic: '' @ topic) []]))"
    by blast
  from n have e: "n = quiet_node\<lparr>started := False, getPeers := []\<rparr>"
    by (simp add: stopped_session_eq)
  from p [rule_format, of quiet_overlay "''bitcoin/mainnet-block''" "[1, 2, 3]"]
  have "publish quiet_overlay stopped_session ''bitcoin/mainnet-block'' [1, 2, 3] =
     (Inr (), [Publish ''bitcoin/mainnet-block'' [1, 2, 3],
               Log BaseLogger Info ''Published message to topic: bitcoin/mainnet-block'' []])"
    by (simp add: quiet_overlay_simps)
  with i c e n stopped_session_reachable show ?thesis by (simp add: quiet_node_def)
qed

text \<open>
  C6 as stated has empty results and no operation once the session is stopped. In the
  session left by \<open>stop\<close>, whose node is not started, \<open>getNodeId\<close> still returns the
  identifier and \<open>publish\<close> still calls the pubsub service.
\<close>

theorem stopped_session_answers_counterexample:
  "reachable stopped_session \<and> started (the (node stopped_session)) = False \<and>
   getNodeId stopped_session = Some ''12D3KooWLocal'' \<and> getNodeId stopped_session \<noteq> None \<and>
   snd (publish quiet_overlay stopped_session ''bitcoin/mainnet-block'' [1, 2, 3]) \<noteq> []"
proof -
  have "started (the (node stopped_session)) = False \<and>
      getNodeId stopped_session = Some ''12D3KooWLocal'' \<and> getNodeId stopped_session \<noteq> None \<and>
      snd (publish quiet_overlay stopped_session ''bitcoin/mainnet-block'' [1, 2, 3]) \<noteq> []"
    by (simp add: stopped_session_eq getNodeId_def publish_def quiet_overlay_simps quiet_node_def)
  with stopped_session_reachable show ?thesis by blast
qed


section \<open>Stopping\<close>








section \<open>The peer identifier of a static address\<close>











section \<open>The reconciliation tick\<close>




















section \<open>Connecting to a peer by its identifier\<close>
















end
